theory Spec2Isabelle
  imports Main "HOL-Library.Word"
begin

section \<open>Platform values: strings, clock readings, JSON\<close>

text \<open>
  The consultation page \<^verbatim>\<open>ConsultByIdPage\<close> (the version with the clinical-note
  dialog) is a React component. Its state hooks and refs become the fields of one record,
  its callbacks become functions from state to state, and everything the browser supplies
  (clock readings, responses of \<^verbatim>\<open>fetch\<close>, the result of \<^verbatim>\<open>JSON.parse\<close>) is an
  argument.

  A JavaScript string is a sequence of UTF-16 code units. ASCII literals of the source are
  written \<open>ascii ''...''\<close>; the Japanese literals are given by their code units.
\<close>

type_synonym jsstring = "16 word list"

definition ascii :: "string \<Rightarrow> jsstring" where
  "ascii s = map of_char s"

text \<open>The decimal digits of a template literal \<^verbatim>\<open>${Date.now()}\<close>.\<close>

function decimal :: "nat \<Rightarrow> jsstring" where
  "decimal n = (if n < 10 then [of_nat (48 + n)]
                else decimal (n div 10) @ [of_nat (48 + n mod 10)])"
  by pat_completeness auto
termination
  by (relation "measure id") auto

declare decimal.simps [simp del]

text \<open>
  \<^verbatim>\<open>String.prototype.trim\<close> strips the code units of WhiteSpace and LineTerminator
  from both ends.
\<close>

definition isWhiteSpace :: "16 word \<Rightarrow> bool" where
  "isWhiteSpace c =
     (c = 0x9 \<or> c = 0xA \<or> c = 0xB \<or> c = 0xC \<or> c = 0xD \<or> c = 0x20 \<or> c = 0xA0
      \<or> c = 0x1680 \<or> (0x2000 \<le> c \<and> c \<le> 0x200A) \<or> c = 0x2028 \<or> c = 0x2029
      \<or> c = 0x202F \<or> c = 0x205F \<or> c = 0x3000 \<or> c = 0xFEFF)"

definition trim :: "jsstring \<Rightarrow> jsstring" where
  "trim s = rev (dropWhile isWhiteSpace (rev (dropWhile isWhiteSpace s)))"

text \<open>
  One reading of the clock: \<^verbatim>\<open>Date.now()\<close> and \<^verbatim>\<open>new Date().toISOString()\<close>.
  The two fields are independent, as the two calls are.
\<close>

record clock =
  now :: nat
  iso :: jsstring

text \<open>
  The values \<^verbatim>\<open>JSON.parse\<close> can return, and \<^verbatim>\<open>undefined\<close> for a property that is
  not there. The representation of numbers is left open (\<open>'n\<close>): the page never computes
  with them.
\<close>

datatype 'n js =
    JUndefined
  | JNull
  | JBool bool
  | JNum 'n
  | JStr jsstring
  | JArr "'n js list"
  | JObj "(jsstring \<times> 'n js) list"

text \<open>
  The two platform functions the token listener calls. \<open>JSON_parse\<close> is \<open>None\<close> where
  \<^verbatim>\<open>JSON.parse\<close> throws a SyntaxError; \<open>String_js\<close> is \<^verbatim>\<open>String(v)\<close> on a value that
  is not a string, \<open>None\<close> where the conversion throws a TypeError.
\<close>

record 'n platform =
  JSON_parse :: "jsstring \<Rightarrow> 'n js option"
  String_js :: "'n js \<Rightarrow> jsstring option"

definition String_of :: "'n platform \<Rightarrow> 'n js \<Rightarrow> jsstring option" where
  "String_of P v = (case v of JStr t \<Rightarrow> Some t | _ \<Rightarrow> String_js P v)"

text \<open>
  \<^verbatim>\<open>parsed.delta\<close>: a TypeError (\<open>None\<close>) on \<^verbatim>\<open>null\<close>, the member of an object, and
  \<^verbatim>\<open>undefined\<close> on every other value.
\<close>

definition prop_delta :: "'n js \<Rightarrow> 'n js option" where
  "prop_delta v =
     (case v of
        JNull \<Rightarrow> None
      | JUndefined \<Rightarrow> None
      | JObj kv \<Rightarrow> Some (case map_of kv (ascii ''delta'') of None \<Rightarrow> JUndefined | Some x \<Rightarrow> x)
      | _ \<Rightarrow> Some JUndefined)"

text \<open>\<^verbatim>\<open>v ?? ""\<close>.\<close>

definition nullish_empty :: "'n js \<Rightarrow> 'n js" where
  "nullish_empty v = (case v of JUndefined \<Rightarrow> JStr [] | JNull \<Rightarrow> JStr [] | _ \<Rightarrow> v)"

text \<open>
  The outcome of \<^verbatim>\<open>fetch\<close> as the callers observe it: the promise rejects, or a response
  arrives with its \<^verbatim>\<open>ok\<close> flag and a body, \<open>None\<close> where \<^verbatim>\<open>res.json()\<close> rejects.
\<close>

datatype 'b fetch_result = Rejected | Responded bool "'b option"

text \<open>
  Response bodies, typed as the page reads them. \<^verbatim>\<open>data?.content\<close> of the greeting is a
  text or absent; the clinical note is \<^verbatim>\<open>{ note_md: string, chief_complaint?: string }\<close>.
\<close>

type_synonym first_message = "jsstring option"

record clinical_note =
  note_md :: "jsstring option"
  chief_complaint :: "jsstring option"

section \<open>The state of the page\<close>

datatype Role = System | Assistant | User

text \<open>The field \<^verbatim>\<open>id\<close> of the source is \<open>msg_id\<close> here.\<close>

record ChatMessage =
  msg_id :: jsstring
  role :: Role
  content :: jsstring
  createdAt :: jsstring

text \<open>
  An \<^verbatim>\<open>EventSource\<close> object: whether \<^verbatim>\<open>close()\<close> has been called on it, and the
  \<^verbatim>\<open>tempId\<close> its token listener has captured.
\<close>

record EventSource =
  closed :: bool
  tempId :: jsstring

datatype request =
    GET_first_message
  | POST_messages jsstring jsstring
  | GET_stream jsstring
  | POST_end jsstring
  | POST_clinical_note jsstring

datatype log = Log_post_failed | Log_end_failed | Log_note_failed

text \<open>
  The hooks of the component, the heap of the \<^verbatim>\<open>EventSource\<close> objects it has created
  (an object is its index), and what it has done to the outside: requests sent, lines
  written with \<^verbatim>\<open>console.error\<close>, targets of \<^verbatim>\<open>router.push\<close>.
\<close>

record view =
  encounterId :: "jsstring option"
  messages :: "ChatMessage list"
  input :: jsstring
  isSending :: bool
  isStreaming :: bool
  chiefComplaint :: "jsstring option"
  noteOpen :: bool
  noteMD :: jsstring
  noteLoading :: bool
  sseRef :: "nat option"
  assistantBufferRef :: jsstring
  heap :: "EventSource list"
  requests :: "request list"
  console :: "log list"
  route :: "jsstring list"

definition mount :: "jsstring option \<Rightarrow> view" where
  "mount e =
     \<lparr>encounterId = e, messages = [], input = [], isSending = False, isStreaming = False,
      chiefComplaint = None, noteOpen = False, noteMD = [], noteLoading = False,
      sseRef = None, assistantBufferRef = [], heap = [], requests = [], console = [],
      route = []\<rparr>"

text \<open>\<^verbatim>\<open>!encounterId\<close> holds for \<^verbatim>\<open>undefined\<close> and for the empty string.\<close>

definition bound_id :: "view \<Rightarrow> jsstring option" where
  "bound_id s = (case encounterId s of None \<Rightarrow> None | Some e \<Rightarrow> if e = [] then None else Some e)"

section \<open>Bootstrap\<close>

definition DISCLAIMER :: jsstring where
  "DISCLAIMER =
     [0x203B, 0x20, 0x3053, 0x306E, 0x30B5, 0x30FC, 0x30D3, 0x30B9, 0x306F, 0x533B, 0x7642,
      0x884C, 0x70BA, 0x306E, 0x4EE3, 0x66FF, 0x3067, 0x306F, 0x3042, 0x308A, 0x307E, 0x305B,
      0x3093, 0x3002, 0x7DCA, 0x6025, 0x6642, 0x306F, 0x31, 0x31, 0x39, 0x756A, 0x307E,
      0x305F, 0x306F, 0x6700, 0x5BC4, 0x308A, 0x306E, 0x533B, 0x7642, 0x6A5F, 0x95A2, 0x3078,
      0x3002]"

definition DEFAULT_GREETING :: jsstring where
  "DEFAULT_GREETING =
     [0x672C, 0x65E5, 0x306F, 0x3069, 0x3046, 0x306A, 0x3055, 0x3044, 0x307E, 0x3057, 0x305F,
      0x304B, 0xFF1F]"

text \<open>The two entries both branches of \<^verbatim>\<open>boot\<close> pass to \<^verbatim>\<open>setMessages\<close>.\<close>

definition seed :: "clock \<Rightarrow> clock \<Rightarrow> jsstring \<Rightarrow> ChatMessage list" where
  "seed c1 c2 text =
     [\<lparr>msg_id = ascii ''sys-'' @ decimal (now c1), role = System, content = DISCLAIMER,
       createdAt = iso c1\<rparr>,
      \<lparr>msg_id = ascii ''asst-'' @ decimal (now c2 + 1), role = Assistant, content = text,
       createdAt = iso c2\<rparr>]"

text \<open>
  The effect on mount, up to its \<^verbatim>\<open>await fetch\<close>: nothing without an encounter id.
  The flag says whether the request is pending.
\<close>

definition boot_begin :: "view \<Rightarrow> bool \<times> view" where
  "boot_begin s =
     (case bound_id s of
        None \<Rightarrow> (False, s)
      | Some e \<Rightarrow> (True, s\<lparr>requests := requests s @ [GET_first_message]\<rparr>))"

text \<open>
  The rest of \<^verbatim>\<open>boot\<close>, on the outcome of the fetch. \<open>aborted\<close> is the variable the
  cleanup of the effect sets; the \<^verbatim>\<open>catch\<close> branch does not read it.
\<close>

definition boot_resume ::
  "first_message fetch_result \<Rightarrow> bool \<Rightarrow> clock \<Rightarrow> clock \<Rightarrow> view \<Rightarrow> view" where
  "boot_resume res aborted c1 c2 s =
     (case res of
        Rejected \<Rightarrow> s\<lparr>messages := seed c1 c2 DEFAULT_GREETING\<rparr>
      | Responded ok body \<Rightarrow>
          if ok then
            (case body of
               None \<Rightarrow> s\<lparr>messages := seed c1 c2 DEFAULT_GREETING\<rparr>
             | Some data \<Rightarrow>
                 let text = (case data of
                               None \<Rightarrow> DEFAULT_GREETING
                             | Some x \<Rightarrow> if x = [] then DEFAULT_GREETING else x)
                 in if aborted then s else s\<lparr>messages := seed c1 c2 text\<rparr>)
          else if aborted then s else s\<lparr>messages := seed c1 c2 DEFAULT_GREETING\<rparr>)"

definition boot :: "first_message fetch_result \<Rightarrow> clock \<Rightarrow> clock \<Rightarrow> view \<Rightarrow> view" where
  "boot res c1 c2 s =
     (case boot_begin s of
        (False, s1) \<Rightarrow> s1
      | (True, s1) \<Rightarrow> boot_resume res False c1 c2 s1)"

section \<open>The streaming connection\<close>

text \<open>\<^verbatim>\<open>es.close()\<close> on the object \<open>h\<close>.\<close>

definition es_close :: "nat \<Rightarrow> view \<Rightarrow> view" where
  "es_close h s = s\<lparr>heap := (heap s)[h := (heap s ! h)\<lparr>closed := True\<rparr>]\<rparr>"

text \<open>\<^verbatim>\<open>sseRef.current?.close(); sseRef.current = null\<close>.\<close>

definition close_current :: "view \<Rightarrow> view" where
  "close_current s =
     (case sseRef s of None \<Rightarrow> s | Some h \<Rightarrow> es_close h s)\<lparr>sseRef := None\<rparr>"

text \<open>The cleanup of the effect, run when the view is disposed.\<close>

definition cleanup :: "view \<Rightarrow> view" where
  "cleanup s = close_current s"

definition openSSE :: "clock \<Rightarrow> view \<Rightarrow> view" where
  "openSSE c s =
     (case bound_id s of
        None \<Rightarrow> s
      | Some e \<Rightarrow>
          let s1 = close_current s;
              t = ascii ''asst-'' @ decimal (now c)
          in s1\<lparr>heap := heap s1 @ [\<lparr>closed = False, tempId = t\<rparr>],
                requests := requests s1 @ [GET_stream e],
                sseRef := Some (length (heap s1)),
                isStreaming := True,
                assistantBufferRef := [],
                messages := messages s1 @
                  [\<lparr>msg_id = t, role = Assistant, content = [], createdAt = iso c\<rparr>]\<rparr>)"

text \<open>
  The text the token listener appends to the buffer for the payload \<open>data\<close>. The
  \<^verbatim>\<open>catch\<close> branch appends \<^verbatim>\<open>String(data || "")\<close>, which is \<open>data\<close> itself for a
  string; it is reached when \<^verbatim>\<open>JSON.parse\<close>, \<^verbatim>\<open>parsed.delta\<close> or \<^verbatim>\<open>String(delta)\<close>
  throws, each before the buffer is assigned.
\<close>

definition tokenText :: "'n platform \<Rightarrow> jsstring \<Rightarrow> jsstring" where
  "tokenText P data =
     (case JSON_parse P data of
        None \<Rightarrow> data
      | Some parsed \<Rightarrow>
          (case prop_delta parsed of
             None \<Rightarrow> data
           | Some d \<Rightarrow>
               (case String_of P (nullish_empty d) of
                  None \<Rightarrow> data
                | Some t \<Rightarrow> t)))"

text \<open>
  The update the token listener passes to \<^verbatim>\<open>setMessages\<close>:
  \<^verbatim>\<open>prev.map((m) => m.id === tempId ? { ...m, content: buffer } : m)\<close>.
\<close>

definition updateContent :: "jsstring \<Rightarrow> jsstring \<Rightarrow> ChatMessage list \<Rightarrow> ChatMessage list" where
  "updateContent i full prev = map (\<lambda>m. if msg_id m = i then m\<lparr>content := full\<rparr> else m) prev"

text \<open>
  The three listeners \<^verbatim>\<open>openSSE\<close> registers. The token listener has captured
  \<open>tempId\<close>, the other two the object \<open>es\<close>. State updates are applied where the listener
  makes them.
\<close>

definition onToken :: "'n platform \<Rightarrow> jsstring \<Rightarrow> jsstring \<Rightarrow> view \<Rightarrow> view" where
  "onToken P t data s =
     (let buf = assistantBufferRef s @ tokenText P data
      in s\<lparr>assistantBufferRef := buf, messages := updateContent t buf (messages s)\<rparr>)"

definition onDone :: "nat \<Rightarrow> view \<Rightarrow> view" where
  "onDone es s = (es_close es (s\<lparr>isStreaming := False\<rparr>))\<lparr>sseRef := None\<rparr>"

definition onError :: "nat \<Rightarrow> view \<Rightarrow> view" where
  "onError es s = (es_close es (s\<lparr>isStreaming := False\<rparr>))\<lparr>sseRef := None\<rparr>"

text \<open>
  What the browser does with an event that arrives on the connection of the object \<open>h\<close>:
  it runs the listener for the event's name, unless \<^verbatim>\<open>close()\<close> has been called on the
  object (its \<^verbatim>\<open>readyState\<close> is then \<^verbatim>\<open>CLOSED\<close> and nothing is dispatched any more).
  This guard is the platform's, not the page's: the listeners above have none.
\<close>

datatype sse_event = Token jsstring | Done | Error

definition dispatch :: "'n platform \<Rightarrow> nat \<Rightarrow> sse_event \<Rightarrow> view \<Rightarrow> view" where
  "dispatch P h ev s =
     (if h < length (heap s) then
        if closed (heap s ! h) then s
        else (case ev of
                Token data \<Rightarrow> onToken P (tempId (heap s ! h)) data s
              | Done \<Rightarrow> onDone h s
              | Error \<Rightarrow> onError h s)
      else s)"

section \<open>Message submission\<close>

text \<open>
  \<^verbatim>\<open>sendMessage(text)\<close> up to its \<^verbatim>\<open>await fetch\<close>. Without an encounter id it pushes
  the route \<^verbatim>\<open>/\<close> and returns; with an empty trimmed text it returns. The flag says
  whether the post is pending.
\<close>

definition sendMessage_begin :: "jsstring option \<Rightarrow> clock \<Rightarrow> view \<Rightarrow> bool \<times> view" where
  "sendMessage_begin text c s =
     (case bound_id s of
        None \<Rightarrow> (False, s\<lparr>route := route s @ [ascii ''/'']\<rparr>)
      | Some i \<Rightarrow>
          let txt = trim (case text of None \<Rightarrow> input s | Some t \<Rightarrow> t)
          in if txt = [] then (False, s)
             else (True,
                   s\<lparr>isSending := True,
                     messages := messages s @
                       [\<lparr>msg_id = ascii ''user-'' @ decimal (now c), role = User, content = txt,
                         createdAt = iso c\<rparr>],
                     input := [],
                     requests := requests s @ [POST_messages i txt]\<rparr>))"

text \<open>
  The rest of \<^verbatim>\<open>sendMessage\<close>: a response that is not \<^verbatim>\<open>ok\<close> throws, the
  \<^verbatim>\<open>catch\<close> writes to the console, \<^verbatim>\<open>finally\<close> resets \<^verbatim>\<open>isSending\<close>.
\<close>

definition sendMessage_resume :: "unit fetch_result \<Rightarrow> clock \<Rightarrow> view \<Rightarrow> view" where
  "sendMessage_resume res c s =
     (case res of
        Rejected \<Rightarrow> s\<lparr>console := console s @ [Log_post_failed]\<rparr>
      | Responded ok body \<Rightarrow>
          if ok then openSSE c s else s\<lparr>console := console s @ [Log_post_failed]\<rparr>)
     \<lparr>isSending := False\<rparr>"

definition sendMessage ::
  "jsstring option \<Rightarrow> clock \<Rightarrow> unit fetch_result \<Rightarrow> clock \<Rightarrow> view \<Rightarrow> view" where
  "sendMessage text c res c' s =
     (case sendMessage_begin text c s of
        (False, s1) \<Rightarrow> s1
      | (True, s1) \<Rightarrow> sendMessage_resume res c' s1)"

section \<open>Ending the consultation\<close>

definition PLACEHOLDER :: jsstring where
  "PLACEHOLDER = [0xFF08, 0x672A, 0x5165, 0x529B, 0xFF09]"

text \<open>The template of the fallback note before the chief complaint, and after it.\<close>

definition FALLBACK_HEAD :: jsstring where
  "FALLBACK_HEAD =
     [0x23, 0x20, 0x5185, 0x79D1, 0x30AB, 0x30EB, 0x30C6, 0xA, 0xA, 0x2A, 0x2A, 0x4E3B,
      0x8A34, 0x2A, 0x2A, 0x3A, 0x20]"

definition FALLBACK_BODY :: jsstring where
  "FALLBACK_BODY =
     [0xA, 0xA, 0x2A, 0x2A, 0x73FE, 0x75C5, 0x6B74, 0x2A, 0x2A, 0x3A, 0x20, 0xFF08, 0x30C1,
      0x30E3, 0x30C3, 0x30C8, 0x5185, 0x5BB9, 0x3092, 0x3082, 0x3068, 0x306B, 0x8981, 0x7D04,
      0xFF09, 0xA, 0xA, 0x2A, 0x2A, 0x65E2, 0x5F80, 0x6B74, 0x2A, 0x2A, 0x3A, 0x20, 0xA, 0xA,
      0x2A, 0x2A, 0x30A2, 0x30EC, 0x30EB, 0x30AE, 0x30FC, 0x2A, 0x2A, 0x3A, 0x20, 0xA, 0xA,
      0x2A, 0x2A, 0x5185, 0x670D, 0x85AC, 0x2A, 0x2A, 0x3A, 0x20, 0xA, 0xA, 0x2A, 0x2A,
      0x8EAB, 0x4F53, 0x6240, 0x898B, 0x2A, 0x2A, 0x3A, 0x20, 0xA, 0xA, 0x2A, 0x2A, 0x9451,
      0x5225, 0x8A3A, 0x65AD, 0x2A, 0x2A, 0x3A, 0x20, 0xA, 0xA, 0x2A, 0x2A, 0x8A55, 0x4FA1,
      0x2A, 0x2A, 0x3A, 0x20, 0xA, 0xA, 0x2A, 0x2A, 0x50, 0x6C, 0x61, 0x6E, 0x2A, 0x2A, 0x3A,
      0x20, 0x691C, 0x67FB, 0x2F, 0x51E6, 0x65B9, 0x2F, 0x6307, 0x5C0E, 0x2F, 0x30D5, 0x30A9,
      0x30ED, 0x30FC, 0x30A2, 0x30C3, 0x30D7, 0xA, 0xA, 0x2D, 0x2D, 0x2D, 0xA, 0x4F5C, 0x6210,
      0x6642, 0x523B, 0x3A, 0x20]"

text \<open>
  The note built in the \<^verbatim>\<open>catch\<close> branch: \<^verbatim>\<open>chiefComplaint ?? PLACEHOLDER\<close> after
  the head, \<^verbatim>\<open>new Date().toLocaleString()\<close> at the end.
\<close>

definition fallbackNote :: "jsstring option \<Rightarrow> jsstring \<Rightarrow> jsstring" where
  "fallbackNote cc locale =
     FALLBACK_HEAD @ (case cc of None \<Rightarrow> PLACEHOLDER | Some x \<Rightarrow> x) @ FALLBACK_BODY @ locale"

definition generateClinicalNote_begin :: "view \<Rightarrow> bool \<times> view" where
  "generateClinicalNote_begin s =
     (case bound_id s of
        None \<Rightarrow> (False, s)
      | Some e \<Rightarrow> (True, s\<lparr>noteLoading := True, requests := requests s @ [POST_clinical_note e]\<rparr>))"

text \<open>
  The rest of \<^verbatim>\<open>generateClinicalNote\<close>. \<open>cc\<close> is the \<^verbatim>\<open>chiefComplaint\<close> the
  callback has captured, \<open>locale\<close> the timestamp text read in the \<^verbatim>\<open>catch\<close> branch.
\<close>

definition generateClinicalNote_resume ::
  "jsstring option \<Rightarrow> clinical_note fetch_result \<Rightarrow> jsstring \<Rightarrow> view \<Rightarrow> view" where
  "generateClinicalNote_resume cc res locale s =
     (let failed = s\<lparr>console := console s @ [Log_note_failed],
                      noteMD := fallbackNote cc locale, noteOpen := True\<rparr>
      in case res of
           Rejected \<Rightarrow> failed
         | Responded ok body \<Rightarrow>
             if ok then
               (case body of
                  None \<Rightarrow> failed
                | Some data \<Rightarrow>
                    let s1 = s\<lparr>noteMD := (case note_md data of None \<Rightarrow> [] | Some t \<Rightarrow> t)\<rparr>;
                        s2 = (case chief_complaint data of
                                None \<Rightarrow> s1
                              | Some x \<Rightarrow> if x = [] then s1 else s1\<lparr>chiefComplaint := Some x\<rparr>)
                    in s2\<lparr>noteOpen := True\<rparr>)
             else failed)
     \<lparr>noteLoading := False\<rparr>"

text \<open>
  \<^verbatim>\<open>handleEndConsult\<close>: the end request is sent to \<^verbatim>\<open>String(encounterId)\<close>; whether
  it resolves (its status is not read) or rejects, \<^verbatim>\<open>generateClinicalNote\<close> is called.
\<close>

definition handleEndConsult_begin :: "view \<Rightarrow> view" where
  "handleEndConsult_begin s =
     s\<lparr>requests := requests s @
          [POST_end (case encounterId s of None \<Rightarrow> ascii ''undefined'' | Some e \<Rightarrow> e)]\<rparr>"

definition handleEndConsult_resume :: "unit fetch_result \<Rightarrow> view \<Rightarrow> bool \<times> view" where
  "handleEndConsult_resume res s =
     (case res of
        Rejected \<Rightarrow> generateClinicalNote_begin (s\<lparr>console := console s @ [Log_end_failed]\<rparr>)
      | Responded ok body \<Rightarrow> generateClinicalNote_begin s)"

definition handleEndConsult ::
  "unit fetch_result \<Rightarrow> clinical_note fetch_result \<Rightarrow> jsstring \<Rightarrow> view \<Rightarrow> view" where
  "handleEndConsult end_res note_res locale s =
     (case handleEndConsult_resume end_res (handleEndConsult_begin s) of
        (False, s1) \<Rightarrow> s1
      | (True, s1) \<Rightarrow> generateClinicalNote_resume (chiefComplaint s) note_res locale s1)"

text \<open>The dialog: closing it, and its button that closes it and goes home.\<close>

definition closeNote :: "view \<Rightarrow> view" where
  "closeNote s = s\<lparr>noteOpen := False\<rparr>"

definition goHome :: "view \<Rightarrow> view" where
  "goHome s = s\<lparr>noteOpen := False, route := route s @ [ascii ''/'']\<rparr>"

section \<open>Runs of the page\<close>

text \<open>
  Everything that can happen to a mounted page, one step at a time. The two halves of an
  asynchronous callback are separate steps, so that a run may interleave them with events
  of a connection; a run may also contain a second half with no first half, which only
  adds runs.
\<close>

datatype action =
    A_boot_begin
  | A_boot_resume "first_message fetch_result" bool clock clock
  | A_setInput jsstring
  | A_send_begin "jsstring option" clock
  | A_send_resume "unit fetch_result" clock
  | A_sse nat sse_event
  | A_end_begin
  | A_end_resume "unit fetch_result"
  | A_note_resume "jsstring option" "clinical_note fetch_result" jsstring
  | A_closeNote
  | A_goHome
  | A_cleanup

fun step :: "'n platform \<Rightarrow> action \<Rightarrow> view \<Rightarrow> view" where
  "step P A_boot_begin s = snd (boot_begin s)"
| "step P (A_boot_resume res aborted c1 c2) s = boot_resume res aborted c1 c2 s"
| "step P (A_setInput v) s = s\<lparr>input := v\<rparr>"
| "step P (A_send_begin text c) s = snd (sendMessage_begin text c s)"
| "step P (A_send_resume res c) s = sendMessage_resume res c s"
| "step P (A_sse h ev) s = dispatch P h ev s"
| "step P A_end_begin s = handleEndConsult_begin s"
| "step P (A_end_resume res) s = snd (handleEndConsult_resume res s)"
| "step P (A_note_resume cc res locale) s = generateClinicalNote_resume cc res locale s"
| "step P A_closeNote s = closeNote s"
| "step P A_goHome s = goHome s"
| "step P A_cleanup s = cleanup s"

definition run :: "'n platform \<Rightarrow> action list \<Rightarrow> view \<Rightarrow> view" where
  "run P as s = fold (step P) as s"

text \<open>The session of the object \<open>h\<close> is over: the object exists and has been closed.\<close>

definition silent :: "view \<Rightarrow> nat \<Rightarrow> bool" where
  "silent s h = (h < length (heap s) \<and> closed (heap s ! h))"

text \<open>
  At most one connection is open, and it is the one \<^verbatim>\<open>sseRef\<close> holds: every object
  of the heap is closed or is the current one.
\<close>

definition only_current :: "view \<Rightarrow> bool" where
  "only_current s =
     list_all (\<lambda>h. closed (heap s ! h) \<or> sseRef s = Some h) [0..<length (heap s)]"

text \<open>The ids whose entry a live connection still writes to.\<close>

definition pendingIds :: "view \<Rightarrow> jsstring list" where
  "pendingIds s = map tempId (filter (\<lambda>es. \<not> closed es) (heap s))"

section \<open>A closed connection stays closed\<close>

text \<open>
  No step of the page reopens an \<^verbatim>\<open>EventSource\<close>: the heap only grows, and an object is
  only ever updated by \<^verbatim>\<open>close()\<close>.
\<close>

lemma silent_es_close: "silent s h \<Longrightarrow> silent (es_close k s) h"
  by (cases "k = h") (simp_all add: silent_def es_close_def)

lemma silent_close_current: "silent s h \<Longrightarrow> silent (close_current s) h"
  using silent_es_close [of s h]
  by (auto simp: close_current_def silent_def split: option.splits)

lemma silent_openSSE: "silent s h \<Longrightarrow> silent (openSSE c s) h"
  using silent_close_current [of s h]
  by (auto simp: openSSE_def silent_def Let_def nth_append split: option.splits)

lemma silent_onToken: "silent s h \<Longrightarrow> silent (onToken P t d s) h"
  by (simp add: onToken_def silent_def Let_def)

lemma silent_onDone: "silent s h \<Longrightarrow> silent (onDone k s) h"
  using silent_es_close [of "s\<lparr>isStreaming := False\<rparr>" h k]
  by (simp add: onDone_def silent_def)

lemma silent_onError: "silent s h \<Longrightarrow> silent (onError k s) h"
  using silent_es_close [of "s\<lparr>isStreaming := False\<rparr>" h k]
  by (simp add: onError_def silent_def)

lemma dispatch_silent: "silent s h \<Longrightarrow> dispatch P h ev s = s"
  by (simp add: dispatch_def silent_def)

lemma silent_dispatch: "silent s h \<Longrightarrow> silent (dispatch P k ev s) h"
  by (cases ev) (simp_all add: dispatch_def silent_onToken silent_onDone silent_onError)

lemma silent_sendMessage_resume: "silent s h \<Longrightarrow> silent (sendMessage_resume res c s) h"
  using silent_openSSE [of s h c]
  by (cases res) (auto simp: sendMessage_resume_def silent_def)

lemma silent_step: "silent s h \<Longrightarrow> silent (step P a s) h"
proof (cases a)
  case (A_sse k ev)
  assume "silent s h"
  then show ?thesis using A_sse by (simp add: silent_dispatch)
next
  case (A_send_resume res c)
  assume "silent s h"
  then show ?thesis using A_send_resume by (simp add: silent_sendMessage_resume)
next
  case A_cleanup
  assume "silent s h"
  then show ?thesis using A_cleanup by (simp add: cleanup_def silent_close_current)
qed (auto simp: silent_def boot_begin_def boot_resume_def sendMessage_begin_def Let_def
      handleEndConsult_begin_def handleEndConsult_resume_def generateClinicalNote_begin_def
      generateClinicalNote_resume_def closeNote_def goHome_def
      split: option.splits fetch_result.splits)

lemma silent_run: "silent s h \<Longrightarrow> silent (run P as s) h"
  unfolding run_def by (induction as arbitrary: s) (simp_all add: silent_step)

lemma onDone_silent: "h < length (heap s) \<Longrightarrow> silent (onDone h s) h"
  by (simp add: onDone_def es_close_def silent_def)

lemma onError_silent: "h < length (heap s) \<Longrightarrow> silent (onError h s) h"
  by (simp add: onError_def es_close_def silent_def)

lemma openSSE_supersedes:
  "bound_id s = Some e \<Longrightarrow> sseRef s = Some h \<Longrightarrow> h < length (heap s) \<Longrightarrow>
     silent (openSSE c s) h \<and> sseRef (openSSE c s) = Some (length (heap s))"
  by (simp add: openSSE_def close_current_def es_close_def silent_def Let_def nth_append)

lemma dispatch_Done_silent: "h < length (heap s) \<Longrightarrow> silent (dispatch P h Done s) h"
  by (cases "closed (heap s ! h)") (simp_all add: dispatch_def onDone_silent, simp add: silent_def)

lemma dispatch_Error_silent: "h < length (heap s) \<Longrightarrow> silent (dispatch P h Error s) h"
  by (cases "closed (heap s ! h)") (simp_all add: dispatch_def onError_silent, simp add: silent_def)

section \<open>Only the current connection is open\<close>

text \<open>
  Every step keeps the invariant \<open>only_current\<close>, which holds when the page is mounted:
  a listener runs only on an open connection, which is then the current one, and
  \<^verbatim>\<open>openSSE\<close> closes the current one before it creates the next.
\<close>

lemma only_current_iff:
  "only_current s \<longleftrightarrow> (\<forall>h<length (heap s). closed (heap s ! h) \<or> sseRef s = Some h)"
  by (auto simp: only_current_def list_all_iff)

lemma close_current_all_closed:
  assumes "only_current s" and "h < length (heap s)"
  shows "closed (heap (close_current s) ! h)"
proof (cases "sseRef s")
  case None
  with assms show ?thesis by (auto simp: only_current_iff close_current_def)
next
  case (Some k)
  with assms show ?thesis
    by (cases "h = k") (auto simp: only_current_iff close_current_def es_close_def)
qed

lemma only_current_close_current: "only_current s \<Longrightarrow> only_current (close_current s)"
  using close_current_all_closed [of s]
  by (auto simp: only_current_iff close_current_def es_close_def split: option.splits)

lemma length_heap_close_current: "length (heap (close_current s)) = length (heap s)"
  by (simp add: close_current_def es_close_def split: option.splits)

lemma only_current_openSSE: "only_current s \<Longrightarrow> only_current (openSSE c s)"
  using close_current_all_closed [of s]
  by (auto simp: only_current_iff openSSE_def Let_def nth_append length_heap_close_current
      less_Suc_eq split: option.splits)

lemma only_current_dispatch:
  assumes "only_current s"
  shows "only_current (dispatch P h ev s)"
proof (cases "h < length (heap s) \<and> \<not> closed (heap s ! h)")
  case False
  with assms show ?thesis by (auto simp: dispatch_def)
next
  case True
  with assms have cur: "sseRef s = Some h"
    by (auto simp: only_current_iff)
  have others: "closed (heap s ! k)" if "k < length (heap s)" "k \<noteq> h" for k
    using that assms cur by (auto simp: only_current_iff)
  show ?thesis
  proof (cases ev)
    case (Token d)
    with True assms show ?thesis
      by (simp add: dispatch_def onToken_def Let_def only_current_iff)
  next
    case Done
    with True others show ?thesis
      by (auto simp: dispatch_def onDone_def es_close_def only_current_iff nth_list_update)
  next
    case Error
    with True others show ?thesis
      by (auto simp: dispatch_def onError_def es_close_def only_current_iff nth_list_update)
  qed
qed

lemma only_current_sendMessage_resume:
  "only_current s \<Longrightarrow> only_current (sendMessage_resume res c s)"
  using only_current_openSSE [of s c]
  by (cases res) (auto simp: sendMessage_resume_def only_current_iff)

lemma only_current_step: "only_current s \<Longrightarrow> only_current (step P a s)"
proof (cases a)
  case (A_sse k ev)
  assume "only_current s"
  then show ?thesis using A_sse by (simp add: only_current_dispatch)
next
  case (A_send_resume res c)
  assume "only_current s"
  then show ?thesis using A_send_resume by (simp add: only_current_sendMessage_resume)
next
  case A_cleanup
  assume "only_current s"
  then show ?thesis using A_cleanup by (simp add: cleanup_def only_current_close_current)
qed (auto simp: only_current_iff boot_begin_def boot_resume_def sendMessage_begin_def Let_def
      handleEndConsult_begin_def handleEndConsult_resume_def generateClinicalNote_begin_def
      generateClinicalNote_resume_def closeNote_def goHome_def
      split: option.splits fetch_result.splits)

lemma only_current_run: "only_current s \<Longrightarrow> only_current (run P as s)"
  unfolding run_def by (induction as arbitrary: s) (simp_all add: only_current_step)

lemma only_current_mount: "only_current (mount e)"
  by (simp add: only_current_iff mount_def)

lemma openSSE_silences_all:
  assumes "only_current s" and "bound_id s \<noteq> None" and "h < length (heap s)"
  shows "silent (openSSE c s) h"
  using assms close_current_all_closed [of s h]
  by (auto simp: silent_def openSSE_def Let_def nth_append length_heap_close_current
      split: option.splits)

section \<open>Claims\<close>

text \<open>
  C1. In a view whose streaming session \<open>h\<close> is active (\<^verbatim>\<open>sseRef\<close> holds it), opening
  a second stream closes \<open>h\<close> and makes the new object the current one. From then on,
  whatever the page does in between (any run \<open>as\<close>), an event \<open>ev\<close> that arrives on \<open>h\<close>
  leaves the whole state as it is, and so every transcript entry. In a state the page can
  reach from its mount the same holds for every connection that exists, since none but
  the current one is open there. It also holds for a session that has ended with
  \<^verbatim>\<open>done\<close> or with a transport error, and for every session that is closed. The page
  gets this from \<^verbatim>\<open>close()\<close>: the browser dispatches nothing on a closed
  \<^verbatim>\<open>EventSource\<close>.
\<close>

theorem stale_session_guard:
  assumes "h < length (heap s)"
  shows "(bound_id s \<noteq> None \<and> sseRef s = Some h \<longrightarrow>
            silent (openSSE c s) h \<and> sseRef (openSSE c s) = Some (length (heap s)) \<and>
            dispatch P h ev (run P as (openSSE c s)) = run P as (openSSE c s))
       \<and> (bound_id s \<noteq> None \<and> s = run P bs (mount e) \<longrightarrow>
            silent (openSSE c s) h \<and> only_current (openSSE c s) \<and>
            dispatch P h ev (run P as (openSSE c s)) = run P as (openSSE c s))
       \<and> dispatch P h ev (run P as (dispatch P h Done s)) = run P as (dispatch P h Done s)
       \<and> dispatch P h ev (run P as (dispatch P h Error s)) = run P as (dispatch P h Error s)
       \<and> (silent s h \<longrightarrow> dispatch P h ev (run P as s) = run P as s)"
proof -
  have sup: "silent (openSSE c s) h \<and> sseRef (openSSE c s) = Some (length (heap s))"
    if "bound_id s \<noteq> None" "sseRef s = Some h"
    using that assms openSSE_supersedes [of s _ h c] by auto
  have reach: "silent (openSSE c s) h \<and> only_current (openSSE c s)"
    if "bound_id s \<noteq> None" "s = run P bs (mount e)"
  proof -
    have "only_current s"
      using that(2) by (simp add: only_current_run only_current_mount)
    then show ?thesis
      using that(1) assms by (simp add: openSSE_silences_all only_current_openSSE)
  qed
  have quiet: "dispatch P h ev (run P as t) = run P as t" if "silent t h" for t
    using that by (simp add: dispatch_silent silent_run)
  have superseded: "bound_id s \<noteq> None \<and> sseRef s = Some h \<longrightarrow>
            silent (openSSE c s) h \<and> sseRef (openSSE c s) = Some (length (heap s)) \<and>
            dispatch P h ev (run P as (openSSE c s)) = run P as (openSSE c s)"
    using sup quiet by blast
  have reachable: "bound_id s \<noteq> None \<and> s = run P bs (mount e) \<longrightarrow>
            silent (openSSE c s) h \<and> only_current (openSSE c s) \<and>
            dispatch P h ev (run P as (openSSE c s)) = run P as (openSSE c s)"
    using reach quiet by blast
  have completed: "dispatch P h ev (run P as (dispatch P h Done s)) = run P as (dispatch P h Done s)"
    using assms by (intro quiet dispatch_Done_silent)
  have failed: "dispatch P h ev (run P as (dispatch P h Error s)) = run P as (dispatch P h Error s)"
    using assms by (intro quiet dispatch_Error_silent)
  have ended: "silent s h \<longrightarrow> dispatch P h ev (run P as s) = run P as s"
    using quiet by blast
  show ?thesis
    using superseded reachable completed failed ended by blast
qed

theorem stale_session_guard_witness:
  "(let P = \<lparr>JSON_parse = (\<lambda>d. None :: unit js option), String_js = (\<lambda>v. None)\<rparr>;
        s = run P [A_send_resume (Responded True None) \<lparr>now = 1000, iso = ascii ''t0''\<rparr>]
              (mount (Some (ascii ''e1'')));
        s' = openSSE \<lparr>now = 2000, iso = ascii ''t1''\<rparr> s;
        r = run P [A_sse 1 (Token (ascii ''Hi''))] s';
        r' = run P [A_sse 1 Done] s'
    in 0 < length (heap s) \<and> bound_id s \<noteq> None \<and> sseRef s = Some 0 \<and> silent s' 0 \<and>
       sseRef s' = Some 1 \<and> only_current s' \<and>
       dispatch P 0 (Token (ascii ''late'')) r = r \<and>
       map content (messages r) = [[], ascii ''Hi''] \<and>
       0 < length (heap s') \<and> dispatch P 0 Error r' = r')"
proof -
  let ?P = "\<lparr>JSON_parse = (\<lambda>d. None :: unit js option), String_js = (\<lambda>v. None)\<rparr>"
  let ?bs = "[A_send_resume (Responded True None) \<lparr>now = 1000, iso = ascii ''t0''\<rparr>]"
  let ?s = "run ?P ?bs (mount (Some (ascii ''e1'')))"
  let ?t = "openSSE \<lparr>now = 2000, iso = ascii ''t1''\<rparr> ?s"
  have h: "0 < length (heap ?s)"
    by (simp add: run_def sendMessage_resume_def openSSE_def mount_def bound_id_def
        close_current_def ascii_def Let_def)
  have b: "bound_id ?s \<noteq> None \<and> sseRef ?s = Some 0"
    by (simp add: run_def sendMessage_resume_def openSSE_def mount_def bound_id_def
        close_current_def ascii_def Let_def)
  have c: "map content (messages (run ?P [A_sse 1 (Token (ascii ''Hi''))] ?t)) = [[], ascii ''Hi'']"
    by (simp add: run_def sendMessage_resume_def dispatch_def onToken_def tokenText_def
        updateContent_def openSSE_def mount_def bound_id_def close_current_def es_close_def
        ascii_def Let_def decimal.simps)
  have l: "length (heap ?s) = Suc 0"
    by (simp add: run_def sendMessage_resume_def openSSE_def mount_def bound_id_def
        close_current_def ascii_def Let_def)
  have h': "0 < length (heap ?t)"
    by (simp add: run_def sendMessage_resume_def openSSE_def mount_def bound_id_def
        close_current_def es_close_def ascii_def Let_def)
  note first = stale_session_guard [OF h, of "\<lparr>now = 2000, iso = ascii ''t1''\<rparr>" ?P
        "Token (ascii ''late'')" "[A_sse 1 (Token (ascii ''Hi''))]" ?bs "Some (ascii ''e1'')"]
  then have q: "silent ?t 0" "only_current ?t"
    using b by simp_all
  note second = stale_session_guard [OF h', of "\<lparr>now = 3000, iso = ascii ''t2''\<rparr>" ?P
        Error "[A_sse 1 Done]" "[]" None]
  show ?thesis
    using h b c h' q first second
    by (simp add: Let_def l del: length_greater_0_conv)
qed

subsection \<open>Tokens of one session\<close>

lemma updateContent_twice: "updateContent t b (updateContent t a ms) = updateContent t b ms"
  by (induction ms) (simp_all add: updateContent_def)

lemma updateContent_append:
  "updateContent t b (xs @ ys) = updateContent t b xs @ updateContent t b ys"
  by (simp add: updateContent_def)

lemma tokens_fold:
  assumes "h < length (heap s)" and "\<not> closed (heap s ! h)" and "tempId (heap s ! h) = t"
  shows "heap (fold (\<lambda>d. dispatch P h (Token d)) ds s) = heap s \<and>
         assistantBufferRef (fold (\<lambda>d. dispatch P h (Token d)) ds s) =
           assistantBufferRef s @ concat (map (tokenText P) ds) \<and>
         messages (fold (\<lambda>d. dispatch P h (Token d)) ds s) =
           (if ds = [] then messages s
            else updateContent t (assistantBufferRef s @ concat (map (tokenText P) ds)) (messages s))"
  using assms
proof (induction ds arbitrary: s)
  case Nil
  then show ?case by simp
next
  case (Cons d ds)
  let ?s1 = "dispatch P h (Token d) s"
  have s1: "?s1 = onToken P t d s"
    using Cons.prems by (simp add: dispatch_def)
  have hp: "heap ?s1 = heap s"
    by (simp add: s1 onToken_def Let_def)
  have buf: "assistantBufferRef ?s1 = assistantBufferRef s @ tokenText P d"
    by (simp add: s1 onToken_def Let_def)
  have msgs: "messages ?s1 = updateContent t (assistantBufferRef s @ tokenText P d) (messages s)"
    by (simp add: s1 onToken_def Let_def)
  have ih: "heap (fold (\<lambda>d. dispatch P h (Token d)) ds ?s1) = heap ?s1 \<and>
         assistantBufferRef (fold (\<lambda>d. dispatch P h (Token d)) ds ?s1) =
           assistantBufferRef ?s1 @ concat (map (tokenText P) ds) \<and>
         messages (fold (\<lambda>d. dispatch P h (Token d)) ds ?s1) =
           (if ds = [] then messages ?s1
            else updateContent t (assistantBufferRef ?s1 @ concat (map (tokenText P) ds)) (messages ?s1))"
    using Cons.prems by (intro Cons.IH) (simp_all add: hp)
  show ?case
    using ih by (simp add: hp buf msgs updateContent_twice)
qed

lemma tokenText_raw: "JSON_parse P d = None \<Longrightarrow> tokenText P d = d"
  by (simp add: tokenText_def)

lemma tokenText_delta:
  "JSON_parse P d = Some (JObj kv) \<Longrightarrow> map_of kv (ascii ''delta'') = Some (JStr x) \<Longrightarrow>
     tokenText P d = x"
  by (simp add: tokenText_def prop_delta_def nullish_empty_def String_of_def)

lemma openSSE_fresh:
  assumes "bound_id s \<noteq> None"
  shows "length (heap s) < length (heap (openSSE c s))"
    and "\<not> closed (heap (openSSE c s) ! length (heap s))"
    and "tempId (heap (openSSE c s) ! length (heap s)) = ascii ''asst-'' @ decimal (now c)"
    and "assistantBufferRef (openSSE c s) = []"
    and "messages (openSSE c s) = messages s @
           [\<lparr>msg_id = ascii ''asst-'' @ decimal (now c), role = Assistant, content = [],
             createdAt = iso c\<rparr>]"
  using assms
  by (auto simp: openSSE_def close_current_def es_close_def Let_def nth_append
      split: option.splits)

text \<open>
  C2. After \<^verbatim>\<open>openSSE\<close>, let the token events with payloads \<open>ds\<close> arrive on the new
  connection, in this order. Each appends its delta \<open>tokenText P d\<close> to the buffer, and
  the listener writes the whole buffer into the entries with the session's id: at the end
  the buffer is the concatenation of the deltas, and the transcript is the one before the
  stream, followed by the pending assistant entry with that concatenation as its content
  (an earlier entry that happens to carry the same id receives it too). Another sequence
  of payloads \<open>ds'\<close> with the same concatenation ends with the same entry, so the content
  does not depend on where the chunks are cut. The delta is the payload itself when
  \<^verbatim>\<open>JSON.parse\<close> fails, and the member \<^verbatim>\<open>delta\<close> of a parsed object when that is a
  string.
\<close>

theorem token_stream_accumulates:
  assumes "bound_id s \<noteq> None"
  shows "let t = ascii ''asst-'' @ decimal (now c);
             full = concat (map (tokenText P) ds);
             s' = fold (\<lambda>d. dispatch P (length (heap s)) (Token d)) ds (openSSE c s);
             s'' = fold (\<lambda>d. dispatch P (length (heap s)) (Token d)) ds' (openSSE c s)
         in assistantBufferRef s' = full \<and>
            messages s' =
              (if ds = [] then messages s else updateContent t full (messages s)) @
              [\<lparr>msg_id = t, role = Assistant, content = full, createdAt = iso c\<rparr>] \<and>
            (concat (map (tokenText P) ds') = full \<longrightarrow> last (messages s'') = last (messages s')) \<and>
            (JSON_parse P d = None \<longrightarrow> tokenText P d = d) \<and>
            (JSON_parse P d = Some (JObj kv) \<and> map_of kv (ascii ''delta'') = Some (JStr x) \<longrightarrow>
               tokenText P d = x)"
proof -
  note fresh = openSSE_fresh [OF assms, of c]
  have acc: "assistantBufferRef (fold (\<lambda>d. dispatch P (length (heap s)) (Token d)) es (openSSE c s)) =
               concat (map (tokenText P) es) \<and>
             messages (fold (\<lambda>d. dispatch P (length (heap s)) (Token d)) es (openSSE c s)) =
               (if es = [] then messages s
                else updateContent (ascii ''asst-'' @ decimal (now c))
                       (concat (map (tokenText P) es)) (messages s)) @
               [\<lparr>msg_id = ascii ''asst-'' @ decimal (now c), role = Assistant,
                 content = concat (map (tokenText P) es), createdAt = iso c\<rparr>]" for es
    using tokens_fold [OF fresh(1) fresh(2) fresh(3), of P es]
    by (simp add: fresh(4) fresh(5) updateContent_append) (simp add: updateContent_def)
  show ?thesis
    using acc [of ds] acc [of ds']
    by (simp add: Let_def tokenText_raw tokenText_delta)
qed

theorem token_stream_accumulates_witness:
  "(let hel = [0x7B, 0x22, 0x64, 0x65, 0x6C, 0x74, 0x61, 0x22, 0x3A, 0x22, 0x48, 0x65, 0x6C,
               0x22, 0x7D];
        P = \<lparr>JSON_parse = (\<lambda>d. if d = hel
                              then Some (JObj [(ascii ''delta'', JStr (ascii ''Hel'') :: unit js)])
                              else None),
             String_js = (\<lambda>v. None)\<rparr>;
        s = mount (Some (ascii ''e1''));
        c = \<lparr>now = 1000, iso = ascii ''t0''\<rparr>
    in bound_id s \<noteq> None \<and>
       messages (fold (\<lambda>d. dispatch P 0 (Token d)) [hel, ascii ''lo, '', ascii ''world'']
                  (openSSE c s)) =
         [\<lparr>msg_id = ascii ''asst-1000'', role = Assistant, content = ascii ''Hello, world'',
           createdAt = ascii ''t0''\<rparr>] \<and>
       last (messages (fold (\<lambda>d. dispatch P 0 (Token d)) [ascii ''Hello, '', ascii ''world'']
                  (openSSE c s))) =
         \<lparr>msg_id = ascii ''asst-1000'', role = Assistant, content = ascii ''Hello, world'',
          createdAt = ascii ''t0''\<rparr> \<and>
       JSON_parse P (ascii ''lo, '') = None \<and> tokenText P (ascii ''lo, '') = ascii ''lo, '' \<and>
       JSON_parse P hel = Some (JObj [(ascii ''delta'', JStr (ascii ''Hel''))]) \<and>
       tokenText P hel = ascii ''Hel'')"
proof -
  let ?hel = "[0x7B, 0x22, 0x64, 0x65, 0x6C, 0x74, 0x61, 0x22, 0x3A, 0x22, 0x48, 0x65, 0x6C,
               0x22, 0x7D] :: jsstring"
  let ?P = "\<lparr>JSON_parse = (\<lambda>d. if d = ?hel
                              then Some (JObj [(ascii ''delta'', JStr (ascii ''Hel'') :: unit js)])
                              else None),
             String_js = (\<lambda>v. None)\<rparr>"
  let ?s = "mount (Some (ascii ''e1''))"
  have b: "bound_id ?s \<noteq> None"
    by (simp add: mount_def bound_id_def ascii_def)
  have t: "concat (map (tokenText ?P) [?hel, ascii ''lo, '', ascii ''world'']) = ascii ''Hello, world''"
    "concat (map (tokenText ?P) [ascii ''Hello, '', ascii ''world'']) = ascii ''Hello, world''"
    by (simp_all add: tokenText_def prop_delta_def nullish_empty_def String_of_def ascii_def)
  have m: "messages ?s = []" "heap ?s = []"
    by (simp_all add: mount_def)
  have d: "ascii ''asst-'' @ decimal 1000 = ascii ''asst-1000''"
    by (simp add: ascii_def decimal.simps)
  have p: "JSON_parse ?P (ascii ''lo, '') = None"
    "JSON_parse ?P ?hel = Some (JObj [(ascii ''delta'', JStr (ascii ''Hel''))])"
    "map_of [(ascii ''delta'', JStr (ascii ''Hel'') :: unit js)] (ascii ''delta'') =
       Some (JStr (ascii ''Hel''))"
    by (simp_all add: ascii_def)
  note th = token_stream_accumulates [OF b, of "\<lparr>now = 1000, iso = ascii ''t0''\<rparr>" ?P
        "[?hel, ascii ''lo, '', ascii ''world'']" "[ascii ''Hello, '', ascii ''world'']",
        unfolded Let_def t m]
  note raw = th [of "ascii ''lo, ''" "[]" "[]"]
  note obj = th [of ?hel "[(ascii ''delta'', JStr (ascii ''Hel''))]" "ascii ''Hel''"]
  have r: "tokenText ?P (ascii ''lo, '') = ascii ''lo, ''"
    using raw p(1) by blast
  have o: "tokenText ?P ?hel = ascii ''Hel''"
    using obj p(2) p(3) by blast
  show ?thesis
    using b th p(1) p(2) r o by (simp add: Let_def d updateContent_def)
qed

subsection \<open>Ending the consultation\<close>

text \<open>
  C3. The button that ends the consultation is rendered only for a page with an encounter
  id \<open>e\<close>. Whatever becomes of the end request (\<open>end_res\<close>: rejected, answered with any
  status), exactly one note request follows it, and a rejected end request is logged.
  The dialog is then open and no longer loading. If the note request fails (it rejects,
  its status is not a success, or its body cannot be read) the note shown is the fallback
  template: the fixed head, the chief complaint the page holds or else the placeholder,
  the fixed body, and the timestamp text at the end. The transcript is not touched.
\<close>

theorem end_consult_presents_note:
  assumes "bound_id s = Some e"
  shows "let s' = handleEndConsult end_res note_res locale s
         in requests s' = requests s @ [POST_end e, POST_clinical_note e] \<and>
            console s' = console s @
              (case end_res of Rejected \<Rightarrow> [Log_end_failed] | Responded ok body \<Rightarrow> []) @
              (case note_res of
                 Rejected \<Rightarrow> [Log_note_failed]
               | Responded ok body \<Rightarrow>
                   if ok then (case body of None \<Rightarrow> [Log_note_failed] | Some data \<Rightarrow> [])
                   else [Log_note_failed]) \<and>
            noteOpen s' \<and> \<not> noteLoading s' \<and> messages s' = messages s \<and>
            (note_res = Rejected \<or> note_res = Responded False b \<or> note_res = Responded True None \<longrightarrow>
               noteMD s' = fallbackNote (chiefComplaint s) locale \<and>
               noteMD s' = FALLBACK_HEAD @
                 (case chiefComplaint s of None \<Rightarrow> PLACEHOLDER | Some x \<Rightarrow> x) @
                 FALLBACK_BODY @ locale)"
proof -
  have enc: "encounterId s = Some e"
    using assms by (auto simp: bound_id_def split: option.splits if_splits)
  show ?thesis
    using assms enc
    by (cases end_res; cases note_res)
      (auto simp: handleEndConsult_def handleEndConsult_resume_def handleEndConsult_begin_def
        generateClinicalNote_begin_def generateClinicalNote_resume_def bound_id_def
        fallbackNote_def Let_def split: option.splits if_splits)
qed

theorem end_consult_presents_note_witness:
  "(let s = (mount (Some (ascii ''e1'')))\<lparr>chiefComplaint := Some (ascii ''cough'')\<rparr>;
        s' = handleEndConsult Rejected (Responded False None) (ascii ''2025/1/1 10:00:00'') s
    in bound_id s = Some (ascii ''e1'') \<and>
       requests s' = [POST_end (ascii ''e1''), POST_clinical_note (ascii ''e1'')] \<and>
       console s' = [Log_end_failed, Log_note_failed] \<and>
       noteOpen s' \<and>
       noteMD s' = FALLBACK_HEAD @ ascii ''cough'' @ FALLBACK_BODY @ ascii ''2025/1/1 10:00:00'')"
proof -
  let ?s = "(mount (Some (ascii ''e1'')))\<lparr>chiefComplaint := Some (ascii ''cough'')\<rparr>"
  have b: "bound_id ?s = Some (ascii ''e1'')"
    by (simp add: mount_def bound_id_def ascii_def)
  have c: "console (handleEndConsult Rejected (Responded False None) (ascii ''2025/1/1 10:00:00'') ?s)
             = [Log_end_failed, Log_note_failed]"
    by (simp add: handleEndConsult_def handleEndConsult_resume_def handleEndConsult_begin_def
        generateClinicalNote_begin_def generateClinicalNote_resume_def bound_id_def mount_def
        ascii_def Let_def)
  have m: "requests ?s = []" "chiefComplaint ?s = Some (ascii ''cough'')" "console ?s = []"
    by (simp_all add: mount_def)
  show ?thesis
    using b c end_consult_presents_note [OF b, of Rejected "Responded False None"
        "ascii ''2025/1/1 10:00:00''" None]
    by (simp add: Let_def m fallbackNote_def)
qed

subsection \<open>Bootstrap\<close>

text \<open>
  C4, as the claim states it, fails for the empty greeting: a response
  \<^verbatim>\<open>{content: ""}\<close> is replaced by the default text (\<^verbatim>\<open>data?.content || content\<close>),
  so the second entry is not \<^verbatim>\<open>assistant("")\<close>.
\<close>

theorem bootstrap_empty_greeting_counterexample:
  "map content
     (messages (boot (Responded True (Some (Some []))) \<lparr>now = 1000, iso = ascii ''t0''\<rparr>
        \<lparr>now = 1000, iso = ascii ''t0''\<rparr> (mount (Some (ascii ''e1'')))))
   = [DISCLAIMER, DEFAULT_GREETING] \<and>
   map content
     (messages (boot (Responded True (Some (Some []))) \<lparr>now = 1000, iso = ascii ''t0''\<rparr>
        \<lparr>now = 1000, iso = ascii ''t0''\<rparr> (mount (Some (ascii ''e1'')))))
   \<noteq> [DISCLAIMER, []]"
  by (simp add: boot_def boot_begin_def boot_resume_def seed_def mount_def bound_id_def
      ascii_def DEFAULT_GREETING_def)

text \<open>
  C4, amended. For a page with an encounter id that is still mounted when the response
  arrives, the bootstrap replaces the transcript by exactly two entries, the disclaimer
  and an assistant entry, in this order. The assistant entry holds the greeting \<open>x\<close> of a
  successful response when \<open>x\<close> is not empty. It holds the fixed default text when the
  greeting is empty or absent, when the body cannot be read, when the status is not a
  success, and when the request is rejected. The disclaimer is the same constant in all
  cases.
\<close>

theorem bootstrap_seeds_transcript:
  assumes "bound_id s \<noteq> None"
  shows "(x \<noteq> [] \<longrightarrow> messages (boot (Responded True (Some (Some x))) c1 c2 s) = seed c1 c2 x) \<and>
         messages (boot (Responded True (Some (Some []))) c1 c2 s) = seed c1 c2 DEFAULT_GREETING \<and>
         messages (boot (Responded True (Some None)) c1 c2 s) = seed c1 c2 DEFAULT_GREETING \<and>
         messages (boot (Responded True None) c1 c2 s) = seed c1 c2 DEFAULT_GREETING \<and>
         messages (boot (Responded False body) c1 c2 s) = seed c1 c2 DEFAULT_GREETING \<and>
         messages (boot Rejected c1 c2 s) = seed c1 c2 DEFAULT_GREETING \<and>
         seed c1 c2 y =
           [\<lparr>msg_id = ascii ''sys-'' @ decimal (now c1), role = System, content = DISCLAIMER,
             createdAt = iso c1\<rparr>,
            \<lparr>msg_id = ascii ''asst-'' @ decimal (now c2 + 1), role = Assistant, content = y,
             createdAt = iso c2\<rparr>]"
  using assms
  by (auto simp: boot_def boot_begin_def boot_resume_def seed_def split: option.splits)

theorem bootstrap_seeds_transcript_witness:
  "(let s = mount (Some (ascii ''e1''));
        c1 = \<lparr>now = 1000, iso = ascii ''t0''\<rparr>;
        c2 = \<lparr>now = 1001, iso = ascii ''t1''\<rparr>
    in bound_id s \<noteq> None \<and> ascii ''X'' \<noteq> [] \<and>
       messages (boot (Responded True (Some (Some (ascii ''X'')))) c1 c2 s) =
         [\<lparr>msg_id = ascii ''sys-1000'', role = System, content = DISCLAIMER,
           createdAt = ascii ''t0''\<rparr>,
          \<lparr>msg_id = ascii ''asst-1002'', role = Assistant, content = ascii ''X'',
           createdAt = ascii ''t1''\<rparr>] \<and>
       messages (boot Rejected c1 c2 s) =
         [\<lparr>msg_id = ascii ''sys-1000'', role = System, content = DISCLAIMER,
           createdAt = ascii ''t0''\<rparr>,
          \<lparr>msg_id = ascii ''asst-1002'', role = Assistant, content = DEFAULT_GREETING,
           createdAt = ascii ''t1''\<rparr>])"
proof -
  let ?s = "mount (Some (ascii ''e1''))"
  have b: "bound_id ?s \<noteq> None"
    by (simp add: mount_def bound_id_def ascii_def)
  have x: "ascii ''X'' \<noteq> []"
    by (simp add: ascii_def)
  have d: "ascii ''sys-'' @ decimal 1000 = ascii ''sys-1000''"
    "ascii ''asst-'' @ decimal 1002 = ascii ''asst-1002''"
    by (simp_all add: ascii_def decimal.simps)
  note th = bootstrap_seeds_transcript [OF b, of "ascii ''X''" "\<lparr>now = 1000, iso = ascii ''t0''\<rparr>"
      "\<lparr>now = 1001, iso = ascii ''t1''\<rparr>" None]
  show ?thesis
    using b x th [of "ascii ''X''"] th [of DEFAULT_GREETING]
    by (simp add: Let_def d)
qed

subsection \<open>Transport errors\<close>

text \<open>
  C5. The error listener of the connection \<open>h\<close>, run in any state, leaves every transcript
  entry and the buffer as they are, so the pending entry keeps what it has accumulated.
  It stops the progress indicator, closes the connection and clears \<^verbatim>\<open>sseRef\<close>; it
  sends no request and creates no new connection, so nothing is retried. The same holds
  for the error event as the browser dispatches it, whether or not \<open>h\<close> is still open;
  on an open connection the browser runs exactly this listener.
\<close>

theorem transport_error_keeps_transcript:
  "messages (onError h s) = messages s \<and>
   assistantBufferRef (onError h s) = assistantBufferRef s \<and>
   requests (onError h s) = requests s \<and>
   length (heap (onError h s)) = length (heap s) \<and>
   \<not> isStreaming (onError h s) \<and>
   sseRef (onError h s) = None \<and>
   (h < length (heap s) \<longrightarrow> closed (heap (onError h s) ! h)) \<and>
   messages (dispatch P h Error s) = messages s \<and>
   assistantBufferRef (dispatch P h Error s) = assistantBufferRef s \<and>
   requests (dispatch P h Error s) = requests s \<and>
   length (heap (dispatch P h Error s)) = length (heap s) \<and>
   (h < length (heap s) \<longrightarrow> closed (heap (dispatch P h Error s) ! h)) \<and>
   (h < length (heap s) \<and> \<not> closed (heap s ! h) \<longrightarrow> dispatch P h Error s = onError h s)"
  by (simp add: onError_def es_close_def dispatch_def)

theorem transport_error_keeps_transcript_witness:
  "(let P = \<lparr>JSON_parse = (\<lambda>d. None :: unit js option), String_js = (\<lambda>v. None)\<rparr>;
        s = dispatch P 0 (Token (ascii ''Hi''))
              (openSSE \<lparr>now = 1000, iso = ascii ''t0''\<rparr> (mount (Some (ascii ''e1''))));
        s' = dispatch P 0 Error s
    in 0 < length (heap s) \<and> \<not> closed (heap s ! 0) \<and> closed (heap s' ! 0) \<and>
       messages s' = messages s \<and>
       messages s' = [\<lparr>msg_id = ascii ''asst-1000'', role = Assistant, content = ascii ''Hi'',
                       createdAt = ascii ''t0''\<rparr>] \<and>
       \<not> isStreaming s' \<and>
       requests s' = [GET_stream (ascii ''e1'')])"
proof -
  let ?P = "\<lparr>JSON_parse = (\<lambda>d. None :: unit js option), String_js = (\<lambda>v. None)\<rparr>"
  let ?s = "dispatch ?P 0 (Token (ascii ''Hi''))
              (openSSE \<lparr>now = 1000, iso = ascii ''t0''\<rparr> (mount (Some (ascii ''e1''))))"
  have s: "?s = \<lparr>encounterId = Some (ascii ''e1''),
       messages = [\<lparr>msg_id = ascii ''asst-1000'', role = Assistant, content = ascii ''Hi'',
                    createdAt = ascii ''t0''\<rparr>],
       input = [], isSending = False, isStreaming = True, chiefComplaint = None,
       noteOpen = False, noteMD = [], noteLoading = False, sseRef = Some 0,
       assistantBufferRef = ascii ''Hi'',
       heap = [\<lparr>closed = False, tempId = ascii ''asst-1000''\<rparr>],
       requests = [GET_stream (ascii ''e1'')], console = [], route = []\<rparr>"
    by (simp add: dispatch_def onToken_def tokenText_def updateContent_def openSSE_def
        mount_def bound_id_def close_current_def ascii_def Let_def decimal.simps)
  show ?thesis
    using transport_error_keeps_transcript [of 0 ?s ?P]
    unfolding s Let_def
    by simp
qed

subsection \<open>Submitting a message\<close>

text \<open>
  C6. Let a page with the encounter id \<open>e\<close> submit a text whose trimmed form \<open>txt\<close> is
  not empty. If the post is rejected or answered with a status that is not a success,
  the state afterwards is the state before with exactly these changes: the user entry
  appended (and kept), the compose buffer cleared, the one post request sent, one line
  on the console, \<^verbatim>\<open>isSending\<close> reset. No second post and no stream request is sent,
  no connection is created, and no field the user sees other than the transcript and the
  compose buffer changes. If the post succeeds, \<^verbatim>\<open>openSSE\<close> runs: the stream request
  follows the post, the new connection is the current one, and the pending assistant
  entry follows the user entry.
\<close>

theorem failed_post_keeps_user_entry:
  assumes "bound_id s = Some e"
    and "trim (case text of None \<Rightarrow> input s | Some t \<Rightarrow> t) = txt"
    and "txt \<noteq> []"
  shows "let u = \<lparr>msg_id = ascii ''user-'' @ decimal (now c), role = User, content = txt,
                  createdAt = iso c\<rparr>;
             failed = sendMessage text c (if rejected then Rejected else Responded False body) c' s;
             ok = sendMessage text c (Responded True body) c' s
         in failed = s\<lparr>messages := messages s @ [u], input := [],
                       requests := requests s @ [POST_messages e txt],
                       console := console s @ [Log_post_failed], isSending := False\<rparr> \<and>
            heap failed = heap s \<and> sseRef failed = sseRef s \<and>
            requests ok = requests s @ [POST_messages e txt, GET_stream e] \<and>
            length (heap ok) = Suc (length (heap s)) \<and>
            sseRef ok = Some (length (heap s)) \<and>
            console ok = console s \<and>
            messages ok = messages s @
              [u, \<lparr>msg_id = ascii ''asst-'' @ decimal (now c'), role = Assistant, content = [],
                   createdAt = iso c'\<rparr>]"
  using assms
  by (auto simp: Let_def sendMessage_def sendMessage_begin_def sendMessage_resume_def
      openSSE_def close_current_def es_close_def bound_id_def
      split: option.splits if_splits)

theorem failed_post_keeps_user_entry_witness:
  "(let s = (mount (Some (ascii ''e1'')))\<lparr>input := ascii '' hi ''\<rparr>;
        c = \<lparr>now = 1000, iso = ascii ''t0''\<rparr>;
        c' = \<lparr>now = 1200, iso = ascii ''t1''\<rparr>;
        u = \<lparr>msg_id = ascii ''user-1000'', role = User, content = ascii ''hi'',
             createdAt = ascii ''t0''\<rparr>
    in bound_id s = Some (ascii ''e1'') \<and> trim (input s) = ascii ''hi'' \<and> ascii ''hi'' \<noteq> [] \<and>
       messages (sendMessage None c Rejected c' s) = [u] \<and>
       requests (sendMessage None c Rejected c' s) = [POST_messages (ascii ''e1'') (ascii ''hi'')] \<and>
       messages (sendMessage None c (Responded False None) c' s) = [u] \<and>
       requests (sendMessage None c (Responded True None) c' s) =
         [POST_messages (ascii ''e1'') (ascii ''hi''), GET_stream (ascii ''e1'')])"
proof -
  let ?s = "(mount (Some (ascii ''e1'')))\<lparr>input := ascii '' hi ''\<rparr>"
  have b: "bound_id ?s = Some (ascii ''e1'')"
    by (simp add: mount_def bound_id_def ascii_def)
  have t: "trim (case None of None \<Rightarrow> input ?s | Some t \<Rightarrow> t) = ascii ''hi''"
    by (simp add: trim_def isWhiteSpace_def ascii_def)
  have n: "ascii ''hi'' \<noteq> []"
    by (simp add: ascii_def)
  have d: "ascii ''user-'' @ decimal 1000 = ascii ''user-1000''"
    by (simp add: ascii_def decimal.simps)
  have m: "messages ?s = []" "requests ?s = []"
    by (simp_all add: mount_def)
  note th = failed_post_keeps_user_entry [OF b t n, of "\<lparr>now = 1000, iso = ascii ''t0''\<rparr>" _ None
      "\<lparr>now = 1200, iso = ascii ''t1''\<rparr>", unfolded Let_def]
  show ?thesis
    using b t n th [of True] th [of False]
    by (simp add: Let_def d m)
qed

text \<open>
  C7. A submission whose trimmed text is empty changes neither the transcript nor the
  request log nor the connections; on a page with an encounter id it changes nothing at
  all. On a page without an encounter id, any submission only pushes the route \<^verbatim>\<open>/\<close>.
  In both cases the outcome of a post plays no part, since none is sent.
\<close>

theorem empty_submission_is_ignored:
  "(trim (case text of None \<Rightarrow> input s | Some t \<Rightarrow> t) = [] \<longrightarrow>
      messages (sendMessage text c res c' s) = messages s \<and>
      requests (sendMessage text c res c' s) = requests s \<and>
      heap (sendMessage text c res c' s) = heap s \<and>
      fst (sendMessage_begin text c s) = False) \<and>
   (trim (case text of None \<Rightarrow> input s | Some t \<Rightarrow> t) = [] \<and> bound_id s \<noteq> None \<longrightarrow>
      sendMessage text c res c' s = s) \<and>
   (bound_id s = None \<longrightarrow>
      sendMessage text c res c' s = s\<lparr>route := route s @ [ascii ''/'']\<rparr> \<and>
      fst (sendMessage_begin text c s) = False)"
  by (auto simp: sendMessage_def sendMessage_begin_def Let_def split: option.splits)

theorem empty_submission_is_ignored_witness:
  "(let s = (mount (Some (ascii ''e1'')))\<lparr>input := [0x20, 0x3000, 0xA]\<rparr>;
        s0 = (mount None)\<lparr>input := ascii ''hi''\<rparr>;
        c = \<lparr>now = 1000, iso = ascii ''t0''\<rparr>
    in trim (input s) = [] \<and> bound_id s \<noteq> None \<and>
       sendMessage None c (Responded True None) c s = s \<and>
       bound_id s0 = None \<and>
       sendMessage None c (Responded True None) c s0 = s0\<lparr>route := [ascii ''/'']\<rparr>)"
proof -
  let ?s = "(mount (Some (ascii ''e1'')))\<lparr>input := [0x20, 0x3000, 0xA]\<rparr>"
  let ?u = "(mount None)\<lparr>input := ascii ''hi''\<rparr>"
  have t: "trim (case None of None \<Rightarrow> input ?s | Some t \<Rightarrow> t) = []"
    by (simp add: trim_def isWhiteSpace_def)
  have b: "bound_id ?s \<noteq> None"
    by (simp add: mount_def bound_id_def ascii_def)
  have b0: "bound_id ?u = None" "route ?u = []"
    by (simp_all add: mount_def bound_id_def)
  show ?thesis
    using t b b0
      empty_submission_is_ignored [of ?s None "\<lparr>now = 1000, iso = ascii ''t0''\<rparr>"
        "Responded True None" "\<lparr>now = 1000, iso = ascii ''t0''\<rparr>"]
      empty_submission_is_ignored [of ?u None "\<lparr>now = 1000, iso = ascii ''t0''\<rparr>"
        "Responded True None" "\<lparr>now = 1000, iso = ascii ''t0''\<rparr>"]
    by (simp add: Let_def)
qed

subsection \<open>The update of the transcript\<close>

text \<open>
  C8, as the claim states it, fails: the update has no guard for an entry that is no
  longer pending. After a stream has completed, no connection writes to its entry any
  more, and the update with that entry's id still replaces the content.
\<close>

theorem updateContent_finalized_counterexample:
  "(let P = \<lparr>JSON_parse = (\<lambda>d. None :: unit js option), String_js = (\<lambda>v. None)\<rparr>;
        s = dispatch P 0 Done (dispatch P 0 (Token (ascii ''Hi''))
              (openSSE \<lparr>now = 1000, iso = ascii ''t0''\<rparr> (mount (Some (ascii ''e1'')))))
    in pendingIds s = [] \<and>
       map msg_id (messages s) = [ascii ''asst-1000''] \<and>
       map content (messages s) = [ascii ''Hi''] \<and>
       map content (updateContent (ascii ''asst-1000'') (ascii ''X'') (messages s)) = [ascii ''X''] \<and>
       updateContent (ascii ''asst-1000'') (ascii ''X'') (messages s) \<noteq> messages s)"
  by (simp add: Let_def pendingIds_def dispatch_def onDone_def onToken_def tokenText_def
      updateContent_def openSSE_def close_current_def es_close_def mount_def bound_id_def
      ascii_def decimal.simps)

lemma updateContent_nth:
  "k < length prev \<Longrightarrow>
     updateContent i full prev ! k = (if msg_id (prev ! k) = i then (prev ! k)\<lparr>content := full\<rparr> else prev ! k)"
  by (simp add: updateContent_def)

lemma updateContent_absent: "i \<notin> msg_id ` set prev \<Longrightarrow> updateContent i full prev = prev"
  by (induction prev) (auto simp: updateContent_def)

text \<open>
  C8, amended. For every transcript and every id, the update keeps the number of entries
  and the id, role and time of the entry at each position, so the order of creation
  stands. The content at a position becomes \<open>full\<close>, whatever it was, when the entry
  carries the id, pending or not, and stays as it is otherwise: an entry with another id
  is unchanged, and the update is the identity when no entry carries the id. The page
  calls the update only from the token listener of a connection, and a token that arrives
  on a closed connection changes nothing.
\<close>

theorem updateContent_by_id:
  "length (updateContent i full prev) = length prev \<and>
   map msg_id (updateContent i full prev) = map msg_id prev \<and>
   map role (updateContent i full prev) = map role prev \<and>
   map createdAt (updateContent i full prev) = map createdAt prev \<and>
   map content (updateContent i full prev) =
     map (\<lambda>m. if msg_id m = i then full else content m) prev \<and>
   (k < length prev \<and> msg_id (prev ! k) \<noteq> i \<longrightarrow> updateContent i full prev ! k = prev ! k) \<and>
   (i \<notin> msg_id ` set prev \<longrightarrow> updateContent i full prev = prev) \<and>
   (silent s h \<longrightarrow> dispatch P h (Token d) s = s)"
proof -
  have "map msg_id (updateContent i full prev) = map msg_id prev"
    and "map role (updateContent i full prev) = map role prev"
    and "map createdAt (updateContent i full prev) = map createdAt prev"
    and "map content (updateContent i full prev) =
           map (\<lambda>m. if msg_id m = i then full else content m) prev"
    by (induction prev) (simp_all add: updateContent_def)
  then show ?thesis
    by (simp add: updateContent_nth updateContent_absent dispatch_silent)
      (simp add: updateContent_def)
qed

theorem updateContent_by_id_witness:
  "(let u = \<lparr>msg_id = ascii ''user-1'', role = User, content = ascii ''hi'', createdAt = ascii ''t0''\<rparr>;
        a = \<lparr>msg_id = ascii ''asst-2'', role = Assistant, content = ascii ''He'', createdAt = ascii ''t1''\<rparr>;
        P = \<lparr>JSON_parse = (\<lambda>d. None :: unit js option), String_js = (\<lambda>v. None)\<rparr>;
        s = onDone 0 (openSSE \<lparr>now = 1000, iso = ascii ''t0''\<rparr> (mount (Some (ascii ''e1''))))
    in (0::nat) < length [u, a] \<and> msg_id ([u, a] ! 0) \<noteq> ascii ''asst-2'' \<and>
       updateContent (ascii ''asst-2'') (ascii ''Hello'') [u, a] ! 0 = u \<and>
       map content (updateContent (ascii ''asst-2'') (ascii ''Hello'') [u, a]) = [ascii ''hi'', ascii ''Hello''] \<and>
       ascii ''asst-9'' \<notin> msg_id ` set [u, a] \<and>
       updateContent (ascii ''asst-9'') (ascii ''Hello'') [u, a] = [u, a] \<and>
       silent s 0 \<and> dispatch P 0 (Token (ascii ''late'')) s = s)"
proof -
  let ?u = "\<lparr>msg_id = ascii ''user-1'', role = User, content = ascii ''hi'', createdAt = ascii ''t0''\<rparr>"
  let ?a = "\<lparr>msg_id = ascii ''asst-2'', role = Assistant, content = ascii ''He'', createdAt = ascii ''t1''\<rparr>"
  let ?P = "\<lparr>JSON_parse = (\<lambda>d. None :: unit js option), String_js = (\<lambda>v. None)\<rparr>"
  let ?s = "onDone 0 (openSSE \<lparr>now = 1000, iso = ascii ''t0''\<rparr> (mount (Some (ascii ''e1''))))"
  have n: "msg_id ([?u, ?a] ! 0) \<noteq> ascii ''asst-2''" "msg_id ?a = ascii ''asst-2''"
    "msg_id ?u \<noteq> ascii ''asst-2''"
    by (simp_all add: ascii_def)
  have ab: "ascii ''asst-9'' \<notin> msg_id ` set [?u, ?a]"
    by (simp add: ascii_def)
  have q: "silent ?s 0"
    by (simp add: silent_def onDone_def es_close_def openSSE_def close_current_def mount_def
        bound_id_def ascii_def Let_def)
  show ?thesis
    using n ab q
      updateContent_by_id [of "ascii ''asst-2''" "ascii ''Hello''" "[?u, ?a]" 0 ?s 0 ?P
        "ascii ''late''"]
      updateContent_by_id [of "ascii ''asst-9''" "ascii ''Hello''" "[?u, ?a]" 0 ?s 0 ?P
        "ascii ''late''"]
    by (simp add: Let_def)
qed

end
